theory Spec2Isabelle
  imports Complex_Main "HOL-Library.Char_ord" "HOL-Library.List_Lexorder" "HOL-Library.Sublist"
    "HOL-Library.Multiset"
begin

section \<open>Theme manifest checker: \<^verbatim>\<open>tools/check_theme_manifests.py\<close>\<close>

subsection \<open>JSON values as Python sees them\<close>

text \<open>
  \<^verbatim>\<open>json.loads\<close> gives \<^verbatim>\<open>None\<close>, \<^verbatim>\<open>bool\<close>, \<^verbatim>\<open>int\<close> (unbounded), \<^verbatim>\<open>float\<close>,
  \<^verbatim>\<open>str\<close>, \<^verbatim>\<open>list\<close> and \<^verbatim>\<open>dict\<close>. A finite float is represented by its exact
  rational value, \<open>Finite 0\<close> being \<^verbatim>\<open>0.0\<close>; the negative zero \<^verbatim>\<open>-0.0\<close> and the
  three non-finite floats that the decoder accepts are constructors of their own. A dict is the list of its items in insertion order and is only ever read
  through \<open>map_of\<close>.
\<close>

datatype pyfloat = Finite rat | NegZero | PosInf | NegInf | NaN

datatype json =
    JNull
  | JBool bool
  | JInt int
  | JFloat pyfloat
  | JString string
  | JArray "json list"
  | JObject "(string \<times> json) list"

type_synonym pydict = "(string \<times> json) list"

text \<open>\<^verbatim>\<open>d.get(key)\<close>: the value, or \<^verbatim>\<open>None\<close> when the key is absent.\<close>

definition dict_get :: "pydict \<Rightarrow> string \<Rightarrow> json" where
  "dict_get d key = (case map_of d key of None \<Rightarrow> JNull | Some v \<Rightarrow> v)"

text \<open>\<^verbatim>\<open>key in d\<close>.\<close>

definition dict_in :: "string \<Rightarrow> pydict \<Rightarrow> bool" where
  "dict_in key d = (map_of d key \<noteq> None)"

text \<open>
  \<^verbatim>\<open>v == k\<close> for an integer \<open>k\<close>: numeric values compare by value across \<^verbatim>\<open>int\<close>,
  \<^verbatim>\<open>float\<close> and \<^verbatim>\<open>bool\<close> (\<^verbatim>\<open>True == 1\<close>, \<^verbatim>\<open>3.0 == 3\<close>, \<^verbatim>\<open>-0.0 == 0\<close>); every other
  value is unequal to an integer.
\<close>

fun py_eq_int :: "json \<Rightarrow> int \<Rightarrow> bool" where
  "py_eq_int (JInt n) k = (n = k)"
| "py_eq_int (JFloat (Finite q)) k = (q = of_int k)"
| "py_eq_int (JFloat NegZero) k = (0 = k)"
| "py_eq_int (JBool b) k = ((if b then 1 else 0) = k)"
| "py_eq_int _ k = False"

text \<open>\<^verbatim>\<open>isinstance(v, dict)\<close>.\<close>

fun is_dict :: "json \<Rightarrow> bool" where
  "is_dict (JObject d) = True"
| "is_dict _ = False"

subsection \<open>The builtin \<^verbatim>\<open>repr\<close> on JSON values\<close>

text \<open>
  \<^verbatim>\<open>repr\<close> belongs to the interpreter, not to the checker, so the validator below takes
  it as an argument. \<open>py_repr\<close> is what the interpreter prints: \<^verbatim>\<open>None\<close>,
  \<^verbatim>\<open>True\<close>, \<^verbatim>\<open>False\<close>, an integer in decimal, a string quoted and escaped
  (characters are code points below 256 here), a list and a dict with their items in
  order. For a float the text is fixed for the non-finite values and for integral values
  of magnitude below \<open>10^16\<close> (the digits, then \<^verbatim>\<open>.0\<close>); the digits of any other float
  come from the interpreter's shortest round-trip conversion, which is left unspecified
  here.
\<close>

fun repr_nat :: "nat \<Rightarrow> string" where
  "repr_nat n =
     (if n < 10 then [''0123456789'' ! n]
      else repr_nat (n div 10) @ [''0123456789'' ! (n mod 10)])"

definition repr_int :: "int \<Rightarrow> string" where
  "repr_int i = (if i < 0 then ''-'' @ repr_nat (nat (- i)) else repr_nat (nat i))"

fun repr_float :: "pyfloat \<Rightarrow> string" where
  "repr_float PosInf = ''inf''"
| "repr_float NegZero = ''-0.0''"
| "repr_float NegInf = ''-inf''"
| "repr_float NaN = ''nan''"
| "repr_float (Finite q) =
     (if of_int \<lfloor>q\<rfloor> = q \<and> \<bar>q\<bar> < 10 ^ 16 then repr_int \<lfloor>q\<rfloor> @ ''.0'' else undefined)"

definition hex_digit :: "nat \<Rightarrow> char" where
  "hex_digit n = ''0123456789abcdef'' ! (n mod 16)"

definition isprintable :: "char \<Rightarrow> bool" where
  "isprintable c =
     (let n = (of_char c :: nat)
      in \<not> (n < 0x20 \<or> (0x7F \<le> n \<and> n \<le> 0xA0) \<or> n = 0xAD))"

definition repr_char :: "char \<Rightarrow> char \<Rightarrow> string" where
  "repr_char q c =
     (if c = q \<or> c = CHR 0x5C then [CHR 0x5C, c]
      else if c = CHR 0x09 then [CHR 0x5C, CHR ''t'']
      else if c = CHR 0x0A then [CHR 0x5C, CHR ''n'']
      else if c = CHR 0x0D then [CHR 0x5C, CHR ''r'']
      else if \<not> isprintable c
        then [CHR 0x5C, CHR ''x'', hex_digit (of_char c div 16), hex_digit (of_char c)]
      else [c])"

definition repr_str :: "string \<Rightarrow> string" where
  "repr_str s =
     (let q = (if CHR 0x27 \<in> set s \<and> CHR 0x22 \<notin> set s then CHR 0x22 else CHR 0x27)
      in [q] @ concat (map (repr_char q) s) @ [q])"

fun join :: "string \<Rightarrow> string list \<Rightarrow> string" where
  "join sep [] = []"
| "join sep [x] = x"
| "join sep (x # y # ys) = x @ sep @ join sep (y # ys)"

fun py_repr :: "json \<Rightarrow> string" where
  "py_repr JNull = ''None''"
| "py_repr (JBool b) = (if b then ''True'' else ''False'')"
| "py_repr (JInt i) = repr_int i"
| "py_repr (JFloat f) = repr_float f"
| "py_repr (JString s) = repr_str s"
| "py_repr (JArray xs) = ''['' @ join '', '' (map py_repr xs) @ '']''"
| "py_repr (JObject d) =
     ''{'' @ join '', '' (map (\<lambda>kv. repr_str (fst kv) @ '': '' @ py_repr (snd kv)) d) @ ''}''"

subsection \<open>Paths and the file system\<close>

text \<open>
  A path is the list of its components below the file system root. A regular file is
  represented by what \<^verbatim>\<open>json.loads(path.read_text(encoding="utf-8"))\<close> does on it:
  \<^item> \<open>Undecodable\<close>: the bytes are not UTF-8 and \<^verbatim>\<open>read_text\<close> raises
    \<^verbatim>\<open>UnicodeDecodeError\<close>;
  \<^item> \<open>Malformed\<close>: the decoder raises \<^verbatim>\<open>JSONDecodeError\<close>, with the text of the error;
  \<^item> \<open>DigitLimit\<close>: the text holds an integer longer than the interpreter's limit on
    integer strings and the decoder raises a plain \<^verbatim>\<open>ValueError\<close>;
  \<^item> \<open>TooDeep\<close>: the text is nested deeper than the interpreter's recursion limit and
    the decoder raises \<^verbatim>\<open>RecursionError\<close>;
  \<^item> \<open>Document\<close>: the decoder returns a document.
\<close>

type_synonym path = "string list"

datatype file_content = Undecodable | Malformed string | DigitLimit | TooDeep | Document json

datatype node = File file_content | Dir "(string \<times> node) list"

datatype error =
    AttributeError
  | FileNotFoundError
  | NotADirectoryError
  | IsADirectoryError
  | UnicodeDecodeError
  | ValueError
  | RecursionError

fun fs_lookup :: "node \<Rightarrow> path \<Rightarrow> node option" where
  "fs_lookup nd [] = Some nd"
| "fs_lookup (File c) (n # ns) = None"
| "fs_lookup (Dir cs) (n # ns) =
     (case map_of cs n of None \<Rightarrow> None | Some nd \<Rightarrow> fs_lookup nd ns)"

definition exists :: "node \<Rightarrow> path \<Rightarrow> bool" where
  "exists fs p = (fs_lookup fs p \<noteq> None)"

definition is_dir :: "node \<Rightarrow> path \<Rightarrow> bool" where
  "is_dir fs p = (case fs_lookup fs p of Some (Dir cs) \<Rightarrow> True | _ \<Rightarrow> False)"

text \<open>\<^verbatim>\<open>root.iterdir()\<close>: one child path per entry of the directory.\<close>

definition iterdir :: "node \<Rightarrow> path \<Rightarrow> error + path list" where
  "iterdir fs rootp =
     (case fs_lookup fs rootp of
        None \<Rightarrow> Inl FileNotFoundError
      | Some (File c) \<Rightarrow> Inl NotADirectoryError
      | Some (Dir cs) \<Rightarrow> Inr (map (\<lambda>n. rootp @ [n]) (map fst cs)))"

text \<open>\<^verbatim>\<open>entry.name\<close>: the last component.\<close>

definition name :: "path \<Rightarrow> string" where
  "name p = (case p of [] \<Rightarrow> [] | _ \<Rightarrow> last p)"

definition startswith :: "string \<Rightarrow> string \<Rightarrow> bool" where
  "startswith s pre = (take (length pre) s = pre)"

text \<open>\<^verbatim>\<open>str(path)\<close> of an absolute POSIX path.\<close>

definition path_str :: "path \<Rightarrow> string" where
  "path_str p = (if p = [] then ''/'' else concat (map (\<lambda>c. ''/'' @ c) p))"

subsection \<open>Issues\<close>

record ManifestIssue =
  path :: path
  message :: string

definition format :: "ManifestIssue \<Rightarrow> string" where
  "format i = path_str (path i) @ '': '' @ message i"

subsection \<open>Locator\<close>

text \<open>The body of the loop of \<^verbatim>\<open>iter_manifest_paths\<close>, over the sorted entries.\<close>

fun yield_manifests :: "node \<Rightarrow> path list \<Rightarrow> path list" where
  "yield_manifests fs [] = []"
| "yield_manifests fs (entry # entries) =
     (if startswith (name entry) ''.'' then yield_manifests fs entries
      else if \<not> is_dir fs entry then yield_manifests fs entries
      else (entry @ [''manifest.json'']) # yield_manifests fs entries)"

definition iter_manifest_paths :: "node \<Rightarrow> path \<Rightarrow> error + path list" where
  "iter_manifest_paths fs rootp =
     (case iterdir fs rootp of
        Inl e \<Rightarrow> Inl e
      | Inr entries \<Rightarrow> Inr (yield_manifests fs (sort entries)))"

subsection \<open>Loader\<close>

datatype loaded = Loaded json | Failed ManifestIssue

definition load_manifest :: "node \<Rightarrow> path \<Rightarrow> error + loaded" where
  "load_manifest fs p =
     (if \<not> exists fs p then Inr (Failed \<lparr>path = p, message = ''missing manifest.json''\<rparr>)
      else case fs_lookup fs p of
        Some (File (Document manifest)) \<Rightarrow> Inr (Loaded manifest)
      | Some (File (Malformed err)) \<Rightarrow>
          Inr (Failed \<lparr>path = p, message = ''invalid JSON: '' @ err\<rparr>)
      | Some (File Undecodable) \<Rightarrow> Inl UnicodeDecodeError
      | Some (File DigitLimit) \<Rightarrow> Inl ValueError
      | Some (File TooDeep) \<Rightarrow> Inl RecursionError
      | _ \<Rightarrow> Inl IsADirectoryError)"

subsection \<open>Validator\<close>

definition quote :: "string \<Rightarrow> string" where
  "quote s = [CHR 0x27] @ s @ [CHR 0x27]"

definition version_message :: "string \<Rightarrow> string" where
  "version_message found = ''expected manifest_version 3, found '' @ found"

definition missing_message :: "string \<Rightarrow> string" where
  "missing_message field = ''missing required field '' @ quote field"

definition theme_keys_message :: string where
  "theme_keys_message =
     ''theme block should include at least '' @ quote ''colors'' @ '' or '' @ quote ''images''"

definition theme_object_message :: string where
  "theme_object_message = ''theme section must be an object''"

text \<open>The loop over the required fields, threading the list of issues.\<close>

fun required_fields :: "path \<Rightarrow> pydict \<Rightarrow> string list \<Rightarrow> ManifestIssue list \<Rightarrow> ManifestIssue list" where
  "required_fields p manifest [] issues = issues"
| "required_fields p manifest (field # rest) issues =
     required_fields p manifest rest
       (if \<not> dict_in field manifest
        then issues @ [\<lparr>path = p, message = missing_message field\<rparr>]
        else issues)"

text \<open>
  \<^verbatim>\<open>validate_manifest\<close>. The first argument is Python's builtin \<^verbatim>\<open>repr\<close>. Only a
  \<^verbatim>\<open>dict\<close> has the method \<^verbatim>\<open>get\<close>: on every other value the first statement raises
  \<^verbatim>\<open>AttributeError\<close>.
\<close>

definition validate_manifest ::
    "(json \<Rightarrow> string) \<Rightarrow> path \<Rightarrow> json \<Rightarrow> error + ManifestIssue list" where
  "validate_manifest rp p manifest =
     (case manifest of
        JObject d \<Rightarrow>
          (let issues = [];
               manifest_version = dict_get d ''manifest_version'';
               issues =
                 (if \<not> py_eq_int manifest_version 3
                  then issues @ [\<lparr>path = p, message = version_message (rp manifest_version)\<rparr>]
                  else issues);
               issues = required_fields p d [''name'', ''version'', ''theme''] issues;
               issues =
                 (case dict_get d ''theme'' of
                    JObject theme_block \<Rightarrow>
                      (if \<not> list_ex (\<lambda>key. dict_in key theme_block) [''colors'', ''images'']
                       then issues @ [\<lparr>path = p, message = theme_keys_message\<rparr>]
                       else issues)
                  | _ \<Rightarrow> issues @ [\<lparr>path = p, message = theme_object_message\<rparr>])
           in Inr issues)
      | _ \<Rightarrow> Inl AttributeError)"

subsection \<open>Driver\<close>

record outcome =
  exit_code :: int
  stdout :: "string list"
  stderr :: "string list"

text \<open>The scan loop of \<^verbatim>\<open>main\<close>, threading \<^verbatim>\<open>all_issues\<close>.\<close>

fun scan :: "(json \<Rightarrow> string) \<Rightarrow> node \<Rightarrow> path list \<Rightarrow> ManifestIssue list
    \<Rightarrow> error + ManifestIssue list" where
  "scan rp fs [] all_issues = Inr all_issues"
| "scan rp fs (manifest_path # rest) all_issues =
     (case load_manifest fs manifest_path of
        Inl e \<Rightarrow> Inl e
      | Inr (Failed issue) \<Rightarrow> scan rp fs rest (all_issues @ [issue])
      | Inr (Loaded manifest) \<Rightarrow>
          (case validate_manifest rp manifest_path manifest of
             Inl e \<Rightarrow> Inl e
           | Inr issues \<Rightarrow> scan rp fs rest (all_issues @ issues)))"

text \<open>What one turn of the scan loop adds to \<^verbatim>\<open>all_issues\<close> for one manifest path.\<close>

definition manifest_issues ::
    "(json \<Rightarrow> string) \<Rightarrow> node \<Rightarrow> path \<Rightarrow> error + ManifestIssue list" where
  "manifest_issues rp fs manifest_path =
     (case load_manifest fs manifest_path of
        Inl e \<Rightarrow> Inl e
      | Inr (Failed issue) \<Rightarrow> Inr [issue]
      | Inr (Loaded manifest) \<Rightarrow> validate_manifest rp manifest_path manifest)"

text \<open>Everything \<^verbatim>\<open>main\<close> does between the root check and the report.\<close>

definition collect_issues :: "(json \<Rightarrow> string) \<Rightarrow> node \<Rightarrow> path \<Rightarrow> error + ManifestIssue list" where
  "collect_issues rp fs rootp =
     (case iter_manifest_paths fs rootp of
        Inl e \<Rightarrow> Inl e
      | Inr paths \<Rightarrow> scan rp fs paths [])"

text \<open>
  \<^verbatim>\<open>main\<close>, with \<^verbatim>\<open>THEMES_DIR\<close> and the file system as arguments. An exception
  can only leave the scan, before anything is printed.
\<close>

definition main :: "(json \<Rightarrow> string) \<Rightarrow> path \<Rightarrow> node \<Rightarrow> error + outcome" where
  "main rp THEMES_DIR fs =
     (if \<not> exists fs THEMES_DIR
      then Inr \<lparr>exit_code = 2, stdout = [],
                stderr = [''error: themes directory not found: '' @ path_str THEMES_DIR]\<rparr>
      else case collect_issues rp fs THEMES_DIR of
        Inl e \<Rightarrow> Inl e
      | Inr all_issues \<Rightarrow>
          (if all_issues \<noteq> []
           then Inr \<lparr>exit_code = 1,
                     stdout = ''Theme manifest validation failed:''
                              # map (\<lambda>issue. ''  - '' @ format issue) all_issues,
                     stderr = []\<rparr>
           else Inr \<lparr>exit_code = 0, stdout = [''All theme manifests look good.''],
                     stderr = []\<rparr>))"

subsection \<open>Example trees\<close>

text \<open>
  Trees for the concrete statements below. \<open>example_fs\<close> has a conformant theme, a hidden
  directory, a regular file, a theme without manifest, one whose manifest does not parse
  and one of manifest version 2; \<open>clean_fs\<close> has the conformant theme only; in
  \<open>array_fs\<close> the manifest is the JSON array \<^verbatim>\<open>[]\<close>. \<open>unreadable_fs\<close> has three themes
  roots: \<^verbatim>\<open>/themes\<close> with a theme without manifest and one whose manifest is not UTF-8,
  \<^verbatim>\<open>/nested\<close> where \<^verbatim>\<open>manifest.json\<close> is a directory, and \<^verbatim>\<open>/bignum\<close> where the manifest is
  valid JSON with an integer beyond the digit limit.
\<close>

definition solarized :: json where
  "solarized =
     JObject [(''manifest_version'', JInt 3), (''name'', JString ''Solarized''),
              (''version'', JString ''1.0''),
              (''theme'', JObject [(''colors'', JObject [(''frame'', JString ''#002b36'')])])]"

definition badversion :: json where
  "badversion =
     JObject [(''manifest_version'', JInt 2), (''name'', JString ''X''),
              (''version'', JString ''1''), (''theme'', JObject [(''images'', JObject [])])]"

definition example_themes :: "(string \<times> node) list" where
  "example_themes =
     [(''solarized'', Dir [(''manifest.json'', File (Document solarized))]),
      (''.cache'', Dir []),
      (''README.md'', File (Malformed ''Expecting value: line 1 column 1 (char 0)'')),
      (''broken'', Dir []),
      (''garbled'', Dir [(''manifest.json'',
          File (Malformed ''Expecting value: line 1 column 1 (char 0)''))]),
      (''badversion'', Dir [(''manifest.json'', File (Document badversion))])]"

definition example_fs :: node where
  "example_fs = Dir [(''themes'', Dir example_themes)]"

definition clean_fs :: node where
  "clean_fs = Dir [(''themes'', Dir [(''solarized'', Dir [(''manifest.json'', File (Document solarized))])])]"

definition unreadable_fs :: node where
  "unreadable_fs =
     Dir [(''themes'', Dir [(''broken'', Dir []),
                           (''utf16'', Dir [(''manifest.json'', File Undecodable)])]),
          (''nested'', Dir [(''d'', Dir [(''manifest.json'', Dir [])])]),
          (''bignum'', Dir [(''n'', Dir [(''manifest.json'', File DigitLimit)])])]"

definition array_fs :: node where
  "array_fs = Dir [(''themes'', Dir [(''x'', Dir [(''manifest.json'', File (Document (JArray [])))])])]"

section \<open>Properties\<close>

subsection \<open>The validator on a dict\<close>

lemma required_fields_acc:
  "required_fields p d fs acc = acc @ required_fields p d fs []"
proof (induction fs arbitrary: acc)
  case Nil
  show ?case by simp
next
  case (Cons f fs)
  show ?case
    using Cons.IH [of "acc @ [\<lparr>path = p, message = missing_message f\<rparr>]"]
          Cons.IH [of "[\<lparr>path = p, message = missing_message f\<rparr>]"]
          Cons.IH [of acc]
    by simp
qed

text \<open>
  The validator on a dict, as the concatenation of what each check appends. The loop over the
  required fields is unrolled.
\<close>

lemma validate_manifest_object:
  "validate_manifest rp p (JObject d) =
     Inr ((if \<not> py_eq_int (dict_get d ''manifest_version'') 3
           then [\<lparr>path = p, message = version_message (rp (dict_get d ''manifest_version''))\<rparr>]
           else [])
          @ (if \<not> dict_in ''name'' d then [\<lparr>path = p, message = missing_message ''name''\<rparr>] else [])
          @ (if \<not> dict_in ''version'' d then [\<lparr>path = p, message = missing_message ''version''\<rparr>] else [])
          @ (if \<not> dict_in ''theme'' d then [\<lparr>path = p, message = missing_message ''theme''\<rparr>] else [])
          @ (case dict_get d ''theme'' of
               JObject theme_block \<Rightarrow>
                 (if \<not> (dict_in ''colors'' theme_block \<or> dict_in ''images'' theme_block)
                  then [\<lparr>path = p, message = theme_keys_message\<rparr>] else [])
             | _ \<Rightarrow> [\<lparr>path = p, message = theme_object_message\<rparr>]))"
  unfolding validate_manifest_def Let_def
  by (simp split: json.split)

lemmas message_defs =
  version_message_def missing_message_def theme_keys_message_def theme_object_message_def quote_def

lemma dict_get_absent: "\<not> dict_in k d \<Longrightarrow> dict_get d k = JNull"
  by (simp add: dict_in_def dict_get_def)

lemma dict_in_keys: "dict_in k d = (k \<in> fst ` set d)"
  by (simp add: dict_in_def map_of_eq_None_iff)

lemma py_eq_int_3: "py_eq_int v 3 = (v = JInt 3 \<or> v = JFloat (Finite 3))"
  by (cases "(v, 3::int)" rule: py_eq_int.cases) auto

subsection \<open>Theme section\<close>

text \<open>
  C1, as the code has it. On every dict the validator returns a list that holds the issue
  \<^verbatim>\<open>theme section must be an object\<close> exactly once when \<^verbatim>\<open>manifest.get("theme")\<close> is not
  a dict, and not at all when it is one. An absent key gives \<^verbatim>\<open>None\<close>, which is not a
  dict: for a manifest without the key \<^verbatim>\<open>theme\<close> the issues about the theme are the
  missing-field issue followed by the theme-section issue.
\<close>

theorem theme_object_issue_iff:
  "\<exists>issues. validate_manifest rp p (JObject d) = Inr issues \<and>
     filter (\<lambda>i. message i = theme_object_message) issues =
       (if is_dict (dict_get d ''theme'') then []
        else [\<lparr>path = p, message = theme_object_message\<rparr>]) \<and>
     (\<not> dict_in ''theme'' d \<longrightarrow>
        filter (\<lambda>i. message i \<in> {missing_message ''theme'', theme_keys_message, theme_object_message}) issues =
          [\<lparr>path = p, message = missing_message ''theme''\<rparr>,
           \<lparr>path = p, message = theme_object_message\<rparr>])"
  unfolding validate_manifest_object
  by (cases "map_of d ''theme''"; cases "dict_get d ''theme''")
     (auto simp: message_defs dict_get_def dict_in_def)

subsection \<open>Manifest version\<close>

text \<open>
  C2, as the code has it. On every dict the validator returns a list with no issue about
  the version when \<^verbatim>\<open>manifest.get("manifest_version")\<close> is the integer 3 or the float 3.0
  (Python's \<^verbatim>\<open>!=\<close> compares numbers by value), and exactly one otherwise (key absent,
  null, a boolean, a string, a list, a dict, any other number); its message is
  \<^verbatim>\<open>expected manifest_version 3, found\<close> followed by the \<^verbatim>\<open>repr\<close> of the value
  found (\<^verbatim>\<open>None\<close> for an absent key).
\<close>

theorem version_issue_iff:
  "\<exists>issues. validate_manifest rp p (JObject d) = Inr issues \<and>
     filter (\<lambda>i. prefix ''expected manifest_version 3, found '' (message i)) issues =
       (if dict_get d ''manifest_version'' = JInt 3 \<or> dict_get d ''manifest_version'' = JFloat (Finite 3)
        then []
        else [\<lparr>path = p,
               message = ''expected manifest_version 3, found '' @ rp (dict_get d ''manifest_version'')\<rparr>])"
  unfolding validate_manifest_object py_eq_int_3
  by (cases "dict_get d ''theme''") (auto simp: message_defs)

subsection \<open>Required fields\<close>

lemma missing_filter:
  "validate_manifest rp p (JObject d) = Inr issues \<Longrightarrow>
   filter (\<lambda>i. prefix ''missing required field '' (message i)) issues =
     map (\<lambda>field. \<lparr>path = p, message = missing_message field\<rparr>)
       (filter (\<lambda>field. \<not> dict_in field d) [''name'', ''version'', ''theme''])"
  unfolding validate_manifest_object
  by (cases "dict_get d ''theme''") (auto simp: message_defs)

text \<open>
  C4. On every dict the validator returns a list whose issues about required fields are
  exactly those of the fields among \<^verbatim>\<open>name\<close>, \<^verbatim>\<open>version\<close>, \<^verbatim>\<open>theme\<close> that are not keys
  of the dict, one issue per missing field, in the listed order, each naming its field; they
  are pairwise distinct and their number is the number of missing fields. Only the set of
  keys of the dict enters: no value is inspected.
\<close>

theorem required_field_issues:
  "\<exists>issues. validate_manifest rp p (JObject d) = Inr issues \<and>
     filter (\<lambda>i. prefix ''missing required field '' (message i)) issues =
       map (\<lambda>field. \<lparr>path = p, message = missing_message field\<rparr>)
         (filter (\<lambda>field. field \<notin> fst ` set d) [''name'', ''version'', ''theme'']) \<and>
     distinct (filter (\<lambda>i. prefix ''missing required field '' (message i)) issues) \<and>
     length (filter (\<lambda>i. prefix ''missing required field '' (message i)) issues) =
       card ({''name'', ''version'', ''theme''} - fst ` set d)"
proof -
  let ?P = "\<lambda>i. prefix ''missing required field '' (message i)"
  let ?missing = "filter (\<lambda>field. field \<notin> fst ` set d) [''name'', ''version'', ''theme'']"
  obtain issues where v: "validate_manifest rp p (JObject d) = Inr issues"
    by (simp add: validate_manifest_object)
  have f: "filter ?P issues = map (\<lambda>field. \<lparr>path = p, message = missing_message field\<rparr>) ?missing"
    using missing_filter [OF v] by (simp only: dict_in_keys)
  have inj: "inj (\<lambda>field. \<lparr>path = p, message = missing_message field\<rparr>)"
    by (rule injI) (simp add: message_defs)
  have dm: "distinct ?missing"
    by simp
  have d: "distinct (filter ?P issues)"
    unfolding f using dm inj_on_subset [OF inj subset_UNIV] by (simp add: distinct_map)
  have "set ?missing = {''name'', ''version'', ''theme''} - fst ` set d"
    by auto
  then have "card ({''name'', ''version'', ''theme''} - fst ` set d) = length ?missing"
    using distinct_card [OF dm] by simp
  then have l: "length (filter ?P issues) = card ({''name'', ''version'', ''theme''} - fst ` set d)"
    unfolding f by simp
  from v f d l show ?thesis by blast
qed

text \<open>
  C5. When the value of \<^verbatim>\<open>theme\<close> is a dict, the issues about the theme (missing field,
  missing \<^verbatim>\<open>colors\<close>/\<^verbatim>\<open>images\<close>, not an object) are: none when the dict has the key
  \<^verbatim>\<open>colors\<close> or the key \<^verbatim>\<open>images\<close>, and otherwise the one issue that recommends them.
\<close>

theorem theme_keys_issue:
  "map_of d ''theme'' = Some (JObject theme_block) \<Longrightarrow>
   \<exists>issues. validate_manifest rp p (JObject d) = Inr issues \<and>
     filter (\<lambda>i. message i \<in> {missing_message ''theme'', theme_keys_message, theme_object_message}) issues =
       (if dict_in ''colors'' theme_block \<or> dict_in ''images'' theme_block then []
        else [\<lparr>path = p, message = theme_keys_message\<rparr>])"
  unfolding validate_manifest_object
  by (auto simp: message_defs dict_get_def dict_in_def)


subsection \<open>Concrete manifests\<close>

text \<open>
  A manifest that is complete but for the key \<^verbatim>\<open>theme\<close>: the validator reports the
  missing field and, after it, that the theme section must be an object.
\<close>

theorem theme_absent_counterexample:
  "\<not> dict_in ''theme'' [(''manifest_version'', JInt 3), (''name'', JString ''X''), (''version'', JString ''1'')] \<and>
   validate_manifest py_repr [''themes'', ''x'', ''manifest.json'']
     (JObject [(''manifest_version'', JInt 3), (''name'', JString ''X''), (''version'', JString ''1'')]) =
   Inr [\<lparr>path = [''themes'', ''x'', ''manifest.json''], message = missing_message ''theme''\<rparr>,
        \<lparr>path = [''themes'', ''x'', ''manifest.json''], message = theme_object_message\<rparr>]"
  by (simp add: validate_manifest_def dict_in_def dict_get_def)

text \<open>The theme-section property at a manifest without the key \<^verbatim>\<open>theme\<close>.\<close>

theorem theme_object_issue_iff_witness:
  "\<not> dict_in ''theme'' [(''manifest_version'', JInt 3)] \<and>
   (\<exists>issues. validate_manifest py_repr [''themes'', ''x'', ''manifest.json'']
        (JObject [(''manifest_version'', JInt 3)]) = Inr issues \<and>
      filter (\<lambda>i. message i = theme_object_message) issues =
        [\<lparr>path = [''themes'', ''x'', ''manifest.json''], message = theme_object_message\<rparr>])"
  using theme_object_issue_iff [of py_repr "[''themes'', ''x'', ''manifest.json'']"
      "[(''manifest_version'', JInt 3)]"]
  by (auto simp: dict_in_def dict_get_def)

text \<open>
  \<^verbatim>\<open>{"manifest_version": 3.0, "name": "X", "version": "1", "theme": {"images": {}}}\<close>:
  the version is a float, not the integer 3, and the validator has nothing to report.
\<close>

theorem float_version_counterexample:
  "JFloat (Finite 3) \<noteq> JInt 3 \<and>
   validate_manifest py_repr [''themes'', ''x'', ''manifest.json'']
     (JObject [(''manifest_version'', JFloat (Finite 3)), (''name'', JString ''X''),
               (''version'', JString ''1''), (''theme'', JObject [(''images'', JObject [])])]) =
   Inr []"
  by (simp add: validate_manifest_def dict_in_def dict_get_def)

text \<open>The version property at a manifest of version 2.\<close>

theorem version_issue_iff_witness:
  "\<exists>issues. validate_manifest py_repr [''themes'', ''badversion'', ''manifest.json'']
        (JObject [(''manifest_version'', JInt 2), (''name'', JString ''X''),
                  (''version'', JString ''1''), (''theme'', JObject [(''images'', JObject [])])]) = Inr issues \<and>
      filter (\<lambda>i. prefix ''expected manifest_version 3, found '' (message i)) issues =
        [\<lparr>path = [''themes'', ''badversion'', ''manifest.json''],
          message = ''expected manifest_version 3, found 2''\<rparr>]"
  using version_issue_iff [of py_repr "[''themes'', ''badversion'', ''manifest.json'']"
      "[(''manifest_version'', JInt 2), (''name'', JString ''X''),
        (''version'', JString ''1''), (''theme'', JObject [(''images'', JObject [])])]"]
  by (simp add: dict_get_def repr_int_def)

text \<open>The required-field property at \<^verbatim>\<open>{"name": null}\<close>: the null value counts as present.\<close>

theorem required_field_issues_witness:
  "\<exists>issues. validate_manifest py_repr [''themes'', ''x'', ''manifest.json'']
        (JObject [(''name'', JNull)]) = Inr issues \<and>
      filter (\<lambda>i. prefix ''missing required field '' (message i)) issues =
        [\<lparr>path = [''themes'', ''x'', ''manifest.json''], message = missing_message ''version''\<rparr>,
         \<lparr>path = [''themes'', ''x'', ''manifest.json''], message = missing_message ''theme''\<rparr>]"
  using required_field_issues [of py_repr "[''themes'', ''x'', ''manifest.json'']" "[(''name'', JNull)]"]
  by auto

text \<open>The theme-keys property at a theme block with neither key.\<close>

theorem theme_keys_issue_witness:
  "map_of [(''theme'', JObject [(''author'', JString ''me'')])] ''theme'' = Some (JObject [(''author'', JString ''me'')]) \<and>
   (\<exists>issues. validate_manifest py_repr [''themes'', ''x'', ''manifest.json'']
        (JObject [(''theme'', JObject [(''author'', JString ''me'')])]) = Inr issues \<and>
      filter (\<lambda>i. message i \<in> {missing_message ''theme'', theme_keys_message, theme_object_message}) issues =
        [\<lparr>path = [''themes'', ''x'', ''manifest.json''], message = theme_keys_message\<rparr>])"
  using theme_keys_issue [of "[(''theme'', JObject [(''author'', JString ''me'')])]"
      "[(''author'', JString ''me'')]" py_repr "[''themes'', ''x'', ''manifest.json'']"]
  by (simp add: dict_in_def)

subsection \<open>The scan loop\<close>

lemma scan_acc:
  "scan rp fs ps acc =
     (case scan rp fs ps [] of Inl e \<Rightarrow> Inl e | Inr issues \<Rightarrow> Inr (acc @ issues))"
proof (induction ps arbitrary: acc)
  case Nil
  show ?case by simp
next
  case (Cons p ps)
  note IH = Cons.IH
  show ?case
  proof (cases "load_manifest fs p")
    case (Inl e)
    then show ?thesis by simp
  next
    case (Inr l)
    show ?thesis
    proof (cases l)
      case (Failed issue)
      with Inr show ?thesis
        using IH [of "acc @ [issue]"] IH [of "[issue]"]
        by (simp split: sum.split)
    next
      case (Loaded manifest)
      show ?thesis
      proof (cases "validate_manifest rp p manifest")
        case (Inl e)
        with Loaded \<open>load_manifest fs p = Inr l\<close> show ?thesis by simp
      next
        case (Inr issues)
        with Loaded \<open>load_manifest fs p = Inr l\<close> show ?thesis
          using IH [of "acc @ issues"] IH [of issues]
          by (simp split: sum.split)
      qed
    qed
  qed
qed

lemma scan_Cons:
  "scan rp fs (p # ps) [] =
     (case manifest_issues rp fs p of
        Inl e \<Rightarrow> Inl e
      | Inr issues \<Rightarrow>
          (case scan rp fs ps [] of Inl e \<Rightarrow> Inl e | Inr rest \<Rightarrow> Inr (issues @ rest)))"
proof (cases "manifest_issues rp fs p")
  case (Inl e)
  then show ?thesis
    by (auto simp: manifest_issues_def split: sum.splits loaded.splits)
next
  case (Inr issues)
  then have "scan rp fs (p # ps) [] = scan rp fs ps issues"
    by (auto simp: manifest_issues_def split: sum.splits loaded.splits)
  with Inr show ?thesis
    by (simp add: scan_acc [of rp fs ps issues])
qed

lemma scan_concat:
  "(scan rp fs ps [] = Inr all_issues) =
     (\<exists>iss. list_all2 (\<lambda>p issues. manifest_issues rp fs p = Inr issues) ps iss \<and>
            all_issues = concat iss)"
proof (induction ps arbitrary: all_issues)
  case Nil
  show ?case by auto
next
  case (Cons p ps)
  let ?R = "\<lambda>p issues. manifest_issues rp fs p = Inr issues"
  show ?case
  proof
    assume s: "scan rp fs (p # ps) [] = Inr all_issues"
    then obtain issues rest where
      i: "manifest_issues rp fs p = Inr issues" and
      r: "scan rp fs ps [] = Inr rest" and
      a: "all_issues = issues @ rest"
      unfolding scan_Cons by (auto split: sum.splits)
    from r Cons.IH [of rest] obtain iss where
      "list_all2 ?R ps iss" and "rest = concat iss"
      by blast
    with i a have "list_all2 ?R (p # ps) (issues # iss) \<and> all_issues = concat (issues # iss)"
      by simp
    then show "\<exists>iss. list_all2 ?R (p # ps) iss \<and> all_issues = concat iss"
      by blast
  next
    assume "\<exists>iss. list_all2 ?R (p # ps) iss \<and> all_issues = concat iss"
    then obtain issues zs where
      i: "manifest_issues rp fs p = Inr issues" and
      z: "list_all2 ?R ps zs" and
      a: "all_issues = issues @ concat zs"
      by (auto simp: list_all2_Cons1)
    from z Cons.IH [of "concat zs"] have "scan rp fs ps [] = Inr (concat zs)"
      by blast
    with i a show "scan rp fs (p # ps) [] = Inr all_issues"
      unfolding scan_Cons by simp
  qed
qed

subsection \<open>Paths of the issues\<close>

text \<open>
  C10. Every issue made for a manifest path carries that path: the issue that
  \<^verbatim>\<open>load_manifest\<close> returns for \<open>p\<close>, and every issue in the list that
  \<^verbatim>\<open>validate_manifest\<close> returns for \<open>p\<close>.
\<close>

theorem issue_paths:
  "(load_manifest fs p = Inr (Failed issue) \<longrightarrow> path issue = p) \<and>
   (validate_manifest rp p manifest = Inr issues \<longrightarrow> (\<forall>i \<in> set issues. path i = p))"
proof
  show "load_manifest fs p = Inr (Failed issue) \<longrightarrow> path issue = p"
    by (auto simp: load_manifest_def split: if_splits option.splits node.splits file_content.splits)
next
  show "validate_manifest rp p manifest = Inr issues \<longrightarrow> (\<forall>i \<in> set issues. path i = p)"
  proof (cases manifest)
    case (JObject d)
    show ?thesis
      unfolding JObject validate_manifest_object
      by (cases "dict_get d ''theme''") (auto split: if_splits)
  qed (simp_all add: validate_manifest_def)
qed

subsection \<open>Order of the issues\<close>

text \<open>
  C9. Within one manifest the validator's list is, in this order: the version issue, the
  missing-field issues for \<^verbatim>\<open>name\<close>, \<^verbatim>\<open>version\<close>, \<^verbatim>\<open>theme\<close>, and the issue about the
  shape of the theme. The scan returns a list exactly when every located manifest path
  yields its list of issues, and the aggregate is then the concatenation of these lists in
  the order of the locator's paths.
\<close>

theorem issue_order:
  "validate_manifest rp p (JObject d) =
     Inr ((if py_eq_int (dict_get d ''manifest_version'') 3 then []
           else [\<lparr>path = p, message = version_message (rp (dict_get d ''manifest_version''))\<rparr>])
          @ (if dict_in ''name'' d then [] else [\<lparr>path = p, message = missing_message ''name''\<rparr>])
          @ (if dict_in ''version'' d then [] else [\<lparr>path = p, message = missing_message ''version''\<rparr>])
          @ (if dict_in ''theme'' d then [] else [\<lparr>path = p, message = missing_message ''theme''\<rparr>])
          @ (case dict_get d ''theme'' of
               JObject theme_block \<Rightarrow>
                 (if dict_in ''colors'' theme_block \<or> dict_in ''images'' theme_block then []
                  else [\<lparr>path = p, message = theme_keys_message\<rparr>])
             | _ \<Rightarrow> [\<lparr>path = p, message = theme_object_message\<rparr>])) \<and>
   ((collect_issues rp fs rootp = Inr all_issues) =
      (\<exists>paths iss. iter_manifest_paths fs rootp = Inr paths \<and>
         list_all2 (\<lambda>manifest_path issues. manifest_issues rp fs manifest_path = Inr issues) paths iss \<and>
         all_issues = concat iss))"
proof
  show "validate_manifest rp p (JObject d) =
     Inr ((if py_eq_int (dict_get d ''manifest_version'') 3 then []
           else [\<lparr>path = p, message = version_message (rp (dict_get d ''manifest_version''))\<rparr>])
          @ (if dict_in ''name'' d then [] else [\<lparr>path = p, message = missing_message ''name''\<rparr>])
          @ (if dict_in ''version'' d then [] else [\<lparr>path = p, message = missing_message ''version''\<rparr>])
          @ (if dict_in ''theme'' d then [] else [\<lparr>path = p, message = missing_message ''theme''\<rparr>])
          @ (case dict_get d ''theme'' of
               JObject theme_block \<Rightarrow>
                 (if dict_in ''colors'' theme_block \<or> dict_in ''images'' theme_block then []
                  else [\<lparr>path = p, message = theme_keys_message\<rparr>])
             | _ \<Rightarrow> [\<lparr>path = p, message = theme_object_message\<rparr>]))"
    unfolding validate_manifest_object
    by (simp split: json.split)
next
  show "(collect_issues rp fs rootp = Inr all_issues) =
      (\<exists>paths iss. iter_manifest_paths fs rootp = Inr paths \<and>
         list_all2 (\<lambda>manifest_path issues. manifest_issues rp fs manifest_path = Inr issues) paths iss \<and>
         all_issues = concat iss)"
  proof (cases "iter_manifest_paths fs rootp")
    case (Inl e)
    then show ?thesis by (simp add: collect_issues_def)
  next
    case (Inr paths)
    then show ?thesis by (simp add: collect_issues_def scan_concat)
  qed
qed

subsection \<open>Loader\<close>


subsection \<open>Driver\<close>

text \<open>
  C8. When the themes directory does not exist, \<^verbatim>\<open>main\<close> prints one line on the
  standard error, nothing on the standard output, and returns 2. When it exists and the
  scan gives a non-empty list of issues, \<^verbatim>\<open>main\<close> prints the header and one indented
  line per issue and returns 1; when the list is empty it prints the one success line and
  returns 0.
\<close>

theorem exit_codes:
  "(\<not> exists fs THEMES_DIR \<longrightarrow>
      main rp THEMES_DIR fs =
        Inr \<lparr>exit_code = 2, stdout = [],
             stderr = [''error: themes directory not found: '' @ path_str THEMES_DIR]\<rparr>) \<and>
   (exists fs THEMES_DIR \<and> collect_issues rp fs THEMES_DIR = Inr all_issues \<and> all_issues \<noteq> [] \<longrightarrow>
      main rp THEMES_DIR fs =
        Inr \<lparr>exit_code = 1,
             stdout = ''Theme manifest validation failed:''
                      # map (\<lambda>issue. ''  - '' @ path_str (path issue) @ '': '' @ message issue) all_issues,
             stderr = []\<rparr>) \<and>
   (exists fs THEMES_DIR \<and> collect_issues rp fs THEMES_DIR = Inr [] \<longrightarrow>
      main rp THEMES_DIR fs =
        Inr \<lparr>exit_code = 0, stdout = [''All theme manifests look good.''], stderr = []\<rparr>)"
  by (simp add: main_def format_def)

subsection \<open>Locator\<close>

lemma fs_lookup_append:
  "fs_lookup fs (p @ q) = (case fs_lookup fs p of None \<Rightarrow> None | Some nd \<Rightarrow> fs_lookup nd q)"
  by (induction fs p rule: fs_lookup.induct) (auto split: option.split)

lemma is_dir_child:
  "fs_lookup fs rootp = Some (Dir cs) \<Longrightarrow>
   is_dir fs (rootp @ [n]) = (\<exists>cs'. map_of cs n = Some (Dir cs'))"
  by (auto simp: is_dir_def fs_lookup_append split: option.splits node.splits)

lemma name_child: "name (rootp @ [n]) = n"
  by (cases rootp) (simp_all add: name_def)

lemma yield_children:
  "fs_lookup fs rootp = Some (Dir cs) \<Longrightarrow>
   yield_manifests fs (map (\<lambda>n. rootp @ [n]) ns) =
     map (\<lambda>n. rootp @ [n, ''manifest.json''])
       (filter (\<lambda>n. \<not> startswith n ''.'' \<and> (\<exists>cs'. map_of cs n = Some (Dir cs'))) ns)"
  by (induction ns) (simp_all add: name_child is_dir_child)

lemma child_le: "((rootp :: path) @ [a] \<le> rootp @ [b]) = (a \<le> b)"
  by (induction rootp) auto

lemma sort_children:
  "sort (map (\<lambda>n. (rootp :: path) @ [n]) ns) = map (\<lambda>n. rootp @ [n]) (sort ns)"
proof (rule properties_for_sort)
  show "mset (map (\<lambda>n. rootp @ [n]) (sort ns)) = mset (map (\<lambda>n. rootp @ [n]) ns)"
    by simp
  show "sorted (map (\<lambda>n. rootp @ [n]) (sort ns))"
    by (simp add: sorted_map child_le)
qed


text \<open>
  C6. For a root that is a directory (whose entries have distinct names), the locator
  yields \<^verbatim>\<open><root>/<name>/manifest.json\<close> for exactly the entries \<open>name\<close> that do not start
  with a dot and are directories, each once, in increasing lexicographic order of the
  names. What is inside a child directory, and so whether the manifest exists, plays no
  part.
\<close>

theorem locator_paths:
  assumes "fs_lookup fs rootp = Some (Dir cs)" and "distinct (map fst cs)"
  shows "iter_manifest_paths fs rootp =
     Inr (map (\<lambda>n. rootp @ [n, ''manifest.json''])
            (sorted_list_of_set
               {n \<in> fst ` set cs. \<not> startswith n ''.'' \<and> (\<exists>cs'. map_of cs n = Some (Dir cs'))}))"
proof -
  let ?P = "\<lambda>n. \<not> startswith n ''.'' \<and> (\<exists>cs'. map_of cs n = Some (Dir cs'))"
  let ?ns = "filter ?P (sort (map fst cs))"
  have "iterdir fs rootp = Inr (map (\<lambda>n. rootp @ [n]) (map fst cs))"
    using assms(1) by (simp add: iterdir_def)
  then have "iter_manifest_paths fs rootp =
      Inr (yield_manifests fs (map (\<lambda>n. rootp @ [n]) (sort (map fst cs))))"
    by (simp only: iter_manifest_paths_def sort_children sum.case)
  then have run: "iter_manifest_paths fs rootp = Inr (map (\<lambda>n. rootp @ [n, ''manifest.json'']) ?ns)"
    by (simp only: yield_children [OF assms(1)])
  have sorted: "sorted ?ns"
    by (simp add: sorted_wrt_filter)
  have distinct: "distinct ?ns"
    using assms(2) by simp
  have members: "set ?ns = {n \<in> fst ` set cs. ?P n}"
    by simp
  have "sorted_list_of_set (set ?ns) = ?ns"
    using sorted distinct by (rule sorted_list_of_set.idem_if_sorted_distinct)
  then have "sorted_list_of_set {n \<in> fst ` set cs. ?P n} = ?ns"
    by (simp only: members)
  with run show ?thesis by simp
qed


subsection \<open>The example trees\<close>

lemmas example_defs =
  example_fs_def example_themes_def clean_fs_def array_fs_def solarized_def badversion_def
  unreadable_fs_def

lemma example_paths:
  "iter_manifest_paths example_fs [''themes''] =
     Inr [[''themes'', ''badversion'', ''manifest.json''],
          [''themes'', ''broken'', ''manifest.json''],
          [''themes'', ''garbled'', ''manifest.json''],
          [''themes'', ''solarized'', ''manifest.json'']]"
  by (simp add: example_defs iter_manifest_paths_def iterdir_def is_dir_def name_def
      startswith_def)

lemma example_issues:
  "collect_issues py_repr example_fs [''themes''] =
     Inr [\<lparr>path = [''themes'', ''badversion'', ''manifest.json''],
           message = ''expected manifest_version 3, found 2''\<rparr>,
          \<lparr>path = [''themes'', ''broken'', ''manifest.json''],
           message = ''missing manifest.json''\<rparr>,
          \<lparr>path = [''themes'', ''garbled'', ''manifest.json''],
           message = ''invalid JSON: Expecting value: line 1 column 1 (char 0)''\<rparr>]"
  unfolding collect_issues_def example_paths
  by (simp add: example_defs load_manifest_def exists_def validate_manifest_def
      dict_get_def dict_in_def repr_int_def version_message_def)

lemma clean_issues: "collect_issues py_repr clean_fs [''themes''] = Inr []"
  by (simp add: example_defs collect_issues_def iter_manifest_paths_def iterdir_def is_dir_def
      name_def startswith_def load_manifest_def exists_def validate_manifest_def
      dict_get_def dict_in_def)

text \<open>The locator on the example tree: the hidden directory and the file are left out, \<^verbatim>\<open>broken\<close> has no manifest and is listed.\<close>

theorem locator_paths_witness:
  "fs_lookup example_fs [''themes''] = Some (Dir example_themes) \<and>
   distinct (map fst example_themes) \<and>
   iter_manifest_paths example_fs [''themes''] =
     Inr (map (\<lambda>n. [''themes''] @ [n, ''manifest.json''])
            (sorted_list_of_set
               {n \<in> fst ` set example_themes.
                  \<not> startswith n ''.'' \<and> (\<exists>cs'. map_of example_themes n = Some (Dir cs'))})) \<and>
   iter_manifest_paths example_fs [''themes''] =
     Inr [[''themes'', ''badversion'', ''manifest.json''],
          [''themes'', ''broken'', ''manifest.json''],
          [''themes'', ''garbled'', ''manifest.json''],
          [''themes'', ''solarized'', ''manifest.json'']]"
proof -
  have h1: "fs_lookup example_fs [''themes''] = Some (Dir example_themes)"
    by (simp add: example_fs_def)
  have h2: "distinct (map fst example_themes)"
    by (simp add: example_themes_def)
  show ?thesis
    using h1 h2 locator_paths [OF h1 h2] example_paths by (intro conjI)
qed



text \<open>The three exits of \<^verbatim>\<open>main\<close>, on the example trees.\<close>

theorem exit_codes_witness:
  "\<not> exists example_fs [''extensions'', ''themes''] \<and>
   main py_repr [''extensions'', ''themes''] example_fs =
     Inr \<lparr>exit_code = 2, stdout = [],
          stderr = [''error: themes directory not found: /extensions/themes'']\<rparr> \<and>
   exists example_fs [''themes''] \<and>
   main py_repr [''themes''] example_fs =
     Inr \<lparr>exit_code = 1,
          stdout =
            [''Theme manifest validation failed:'',
             ''  - /themes/badversion/manifest.json: expected manifest_version 3, found 2'',
             ''  - /themes/broken/manifest.json: missing manifest.json'',
             ''  - /themes/garbled/manifest.json: invalid JSON: Expecting value: line 1 column 1 (char 0)''],
          stderr = []\<rparr> \<and>
   exists clean_fs [''themes''] \<and>
   main py_repr [''themes''] clean_fs =
     Inr \<lparr>exit_code = 0, stdout = [''All theme manifests look good.''], stderr = []\<rparr>"
proof -
  have e0: "\<not> exists example_fs [''extensions'', ''themes'']"
    by (simp add: exists_def example_fs_def)
  have e1: "exists example_fs [''themes'']"
    by (simp add: exists_def example_fs_def)
  have e2: "exists clean_fs [''themes'']"
    by (simp add: exists_def clean_fs_def)
  have m0: "main py_repr [''extensions'', ''themes''] example_fs =
     Inr \<lparr>exit_code = 2, stdout = [],
          stderr = [''error: themes directory not found: /extensions/themes'']\<rparr>"
    using exit_codes [where fs = example_fs and THEMES_DIR = "[''extensions'', ''themes'']"
        and rp = py_repr] e0
    by (simp add: path_str_def)
  have m1: "main py_repr [''themes''] example_fs =
     Inr \<lparr>exit_code = 1,
          stdout =
            [''Theme manifest validation failed:'',
             ''  - /themes/badversion/manifest.json: expected manifest_version 3, found 2'',
             ''  - /themes/broken/manifest.json: missing manifest.json'',
             ''  - /themes/garbled/manifest.json: invalid JSON: Expecting value: line 1 column 1 (char 0)''],
          stderr = []\<rparr>"
    using exit_codes [where fs = example_fs and THEMES_DIR = "[''themes'']" and rp = py_repr
        and all_issues = "[\<lparr>path = [''themes'', ''badversion'', ''manifest.json''],
           message = ''expected manifest_version 3, found 2''\<rparr>,
       \<lparr>path = [''themes'', ''broken'', ''manifest.json''],
           message = ''missing manifest.json''\<rparr>,
       \<lparr>path = [''themes'', ''garbled'', ''manifest.json''],
           message = ''invalid JSON: Expecting value: line 1 column 1 (char 0)''\<rparr>]"]
      e1 example_issues
    by (simp add: path_str_def)
  have m2: "main py_repr [''themes''] clean_fs =
     Inr \<lparr>exit_code = 0, stdout = [''All theme manifests look good.''], stderr = []\<rparr>"
    using exit_codes [where fs = clean_fs and THEMES_DIR = "[''themes'']" and rp = py_repr]
      e2 clean_issues
    by simp
  from e0 m0 e1 m1 e2 m2 show ?thesis by (intro conjI)
qed

text \<open>The order of the issues, on the empty manifest and on the example tree.\<close>

theorem issue_order_witness:
  "validate_manifest py_repr [''themes'', ''x'', ''manifest.json''] (JObject []) =
     Inr [\<lparr>path = [''themes'', ''x'', ''manifest.json''],
           message = ''expected manifest_version 3, found None''\<rparr>,
          \<lparr>path = [''themes'', ''x'', ''manifest.json''], message = missing_message ''name''\<rparr>,
          \<lparr>path = [''themes'', ''x'', ''manifest.json''], message = missing_message ''version''\<rparr>,
          \<lparr>path = [''themes'', ''x'', ''manifest.json''], message = missing_message ''theme''\<rparr>,
          \<lparr>path = [''themes'', ''x'', ''manifest.json''], message = theme_object_message\<rparr>] \<and>
   (\<exists>paths iss. iter_manifest_paths example_fs [''themes''] = Inr paths \<and>
      list_all2 (\<lambda>manifest_path issues. manifest_issues py_repr example_fs manifest_path = Inr issues)
        paths iss \<and>
      [\<lparr>path = [''themes'', ''badversion'', ''manifest.json''],
           message = ''expected manifest_version 3, found 2''\<rparr>,
       \<lparr>path = [''themes'', ''broken'', ''manifest.json''],
           message = ''missing manifest.json''\<rparr>,
       \<lparr>path = [''themes'', ''garbled'', ''manifest.json''],
           message = ''invalid JSON: Expecting value: line 1 column 1 (char 0)''\<rparr>] = concat iss)"
proof -
  note o = issue_order [where rp = py_repr and p = "[''themes'', ''x'', ''manifest.json'']"
      and d = "[]" and fs = example_fs and rootp = "[''themes'']"
      and all_issues = "[\<lparr>path = [''themes'', ''badversion'', ''manifest.json''],
           message = ''expected manifest_version 3, found 2''\<rparr>,
       \<lparr>path = [''themes'', ''broken'', ''manifest.json''],
           message = ''missing manifest.json''\<rparr>,
       \<lparr>path = [''themes'', ''garbled'', ''manifest.json''],
           message = ''invalid JSON: Expecting value: line 1 column 1 (char 0)''\<rparr>]"]
  have v: "validate_manifest py_repr [''themes'', ''x'', ''manifest.json''] (JObject []) =
     Inr [\<lparr>path = [''themes'', ''x'', ''manifest.json''],
           message = ''expected manifest_version 3, found None''\<rparr>,
          \<lparr>path = [''themes'', ''x'', ''manifest.json''], message = missing_message ''name''\<rparr>,
          \<lparr>path = [''themes'', ''x'', ''manifest.json''], message = missing_message ''version''\<rparr>,
          \<lparr>path = [''themes'', ''x'', ''manifest.json''], message = missing_message ''theme''\<rparr>,
          \<lparr>path = [''themes'', ''x'', ''manifest.json''], message = theme_object_message\<rparr>]"
    using o [THEN conjunct1] by (simp add: dict_get_def dict_in_def version_message_def)
  from v iffD1 [OF o [THEN conjunct2] example_issues] show ?thesis by (rule conjI)
qed

text \<open>The paths of the issues, on the example tree.\<close>

theorem issue_paths_witness:
  "load_manifest example_fs [''themes'', ''broken'', ''manifest.json''] =
     Inr (Failed \<lparr>path = [''themes'', ''broken'', ''manifest.json''],
                  message = ''missing manifest.json''\<rparr>) \<and>
   validate_manifest py_repr [''themes'', ''badversion'', ''manifest.json''] badversion =
     Inr [\<lparr>path = [''themes'', ''badversion'', ''manifest.json''],
           message = ''expected manifest_version 3, found 2''\<rparr>] \<and>
   path \<lparr>path = [''themes'', ''broken'', ''manifest.json''], message = ''missing manifest.json''\<rparr> =
     [''themes'', ''broken'', ''manifest.json''] \<and>
   list_all (\<lambda>i. path i = [''themes'', ''badversion'', ''manifest.json''])
     [\<lparr>path = [''themes'', ''badversion'', ''manifest.json''],
       message = ''expected manifest_version 3, found 2''\<rparr>]"
proof -
  have l: "load_manifest example_fs [''themes'', ''broken'', ''manifest.json''] =
     Inr (Failed \<lparr>path = [''themes'', ''broken'', ''manifest.json''],
                  message = ''missing manifest.json''\<rparr>)"
    by (simp add: load_manifest_def exists_def example_fs_def example_themes_def)
  have v: "validate_manifest py_repr [''themes'', ''badversion'', ''manifest.json''] badversion =
     Inr [\<lparr>path = [''themes'', ''badversion'', ''manifest.json''],
           message = ''expected manifest_version 3, found 2''\<rparr>]"
    by (simp add: validate_manifest_def badversion_def dict_get_def dict_in_def repr_int_def
        version_message_def)
  have a: "path \<lparr>path = [''themes'', ''broken'', ''manifest.json''], message = ''missing manifest.json''\<rparr> =
     [''themes'', ''broken'', ''manifest.json'']"
    using issue_paths [where fs = example_fs and p = "[''themes'', ''broken'', ''manifest.json'']"
        and issue = "\<lparr>path = [''themes'', ''broken'', ''manifest.json''],
                      message = ''missing manifest.json''\<rparr>", THEN conjunct1] l
    by (rule mp)
  have "\<forall>i \<in> set [\<lparr>path = [''themes'', ''badversion'', ''manifest.json''],
       message = ''expected manifest_version 3, found 2''\<rparr>].
       path i = [''themes'', ''badversion'', ''manifest.json'']"
    using issue_paths [where rp = py_repr and p = "[''themes'', ''badversion'', ''manifest.json'']"
        and manifest = badversion
        and issues = "[\<lparr>path = [''themes'', ''badversion'', ''manifest.json''],
                        message = ''expected manifest_version 3, found 2''\<rparr>]", THEN conjunct2] v
    by (rule mp)
  then have b: "list_all (\<lambda>i. path i = [''themes'', ''badversion'', ''manifest.json''])
     [\<lparr>path = [''themes'', ''badversion'', ''manifest.json''],
       message = ''expected manifest_version 3, found 2''\<rparr>]"
    by (simp only: list_all_iff)
  from l v a b show ?thesis by (intro conjI)
qed

text \<open>
  C3, where the code departs from it. A manifest file that holds the JSON array
  \<^verbatim>\<open>[]\<close>: the loader returns the list, \<^verbatim>\<open>manifest.get\<close> raises \<^verbatim>\<open>AttributeError\<close> in
  the validator, and the exception leaves \<^verbatim>\<open>main\<close>.
\<close>

theorem array_manifest_raises:
  "load_manifest array_fs [''themes'', ''x'', ''manifest.json''] = Inr (Loaded (JArray [])) \<and>
   validate_manifest py_repr [''themes'', ''x'', ''manifest.json''] (JArray []) = Inl AttributeError \<and>
   main py_repr [''themes''] array_fs = Inl AttributeError"
  by (simp add: array_fs_def main_def collect_issues_def iter_manifest_paths_def iterdir_def
      is_dir_def name_def startswith_def load_manifest_def exists_def validate_manifest_def)

end
